theory Spec2Isabelle
  imports Complex_Main
begin

section \<open>Planar vectors (src/boids/vector2d.py)\<close>

text \<open>
  Python numbers (\<open>int\<close> and \<open>float\<close>) are modelled as mathematical reals: the
  development is about the algorithms, not about rounding, overflow, NaN or signed zero.
  A sum, product, quotient or root of the model stands for the rounded one of the
  program, so the claims below state which vector is computed and stored, and no exact
  magnitude of a rescaled vector.
  Every \<open>raise\<close> of the source is a value \<open>Inl e\<close> of the result type.
\<close>

datatype error = ZeroDivisionError | NotImplementedError

text \<open>
  \<open>class Vector2D\<close>: a frozen pair; the selectors \<open>vec_x\<close> and \<open>vec_y\<close> are the
  properties \<open>x\<close> and \<open>y\<close>.
\<close>

datatype Vector2D = Vector2D (vec_x: real) (vec_y: real)

text \<open>\<open>Zero = Vector2D(0, 0)\<close>.\<close>

definition Zero :: Vector2D where
  "Zero = Vector2D 0 0"

text \<open>
  The right operand of a binary operator: a number, a vector, or an object of any other
  type (on which \<open>_apply_operator\<close> raises).
\<close>

datatype operand = Scalar real | Vec Vector2D | Other

text \<open>
  The functions of the \<open>operator\<close> module the class uses. Python's \<open>truediv\<close>,
  \<open>mod\<close> and \<open>floordiv\<close> raise ZeroDivisionError on a zero divisor, also on floats;
  \<open>a % b\<close> has the sign of \<open>b\<close>, that is \<open>a - b * floor (a / b)\<close>.
\<close>

type_synonym operator = "real \<Rightarrow> real \<Rightarrow> error + real"

definition add :: operator where
  "add a b = Inr (a + b)"

definition sub :: operator where
  "sub a b = Inr (a - b)"

definition mul :: operator where
  "mul a b = Inr (a * b)"

definition truediv :: operator where
  "truediv a b = (if b = 0 then Inl ZeroDivisionError else Inr (a / b))"

definition floordiv :: operator where
  "floordiv a b = (if b = 0 then Inl ZeroDivisionError else Inr (of_int \<lfloor>a / b\<rfloor>))"

definition mod_op :: operator where
  "mod_op a b = (if b = 0 then Inl ZeroDivisionError else Inr (a - b * of_int \<lfloor>a / b\<rfloor>))"

text \<open>
  \<open>Vector2D(x=operator(self.x, o1), y=operator(self.y, o2))\<close>: the x component is
  computed first, so its exception wins.
\<close>

definition build :: "error + real \<Rightarrow> error + real \<Rightarrow> error + Vector2D" where
  "build rx ry =
     (case rx of
        Inl e \<Rightarrow> Inl e
      | Inr a \<Rightarrow> (case ry of Inl e \<Rightarrow> Inl e | Inr b \<Rightarrow> Inr (Vector2D a b)))"

text \<open>\<open>Vector2D._apply_operator\<close>: \<open>self\<close> is always the left operand.\<close>

fun apply_operator :: "operator \<Rightarrow> Vector2D \<Rightarrow> operand \<Rightarrow> error + Vector2D" where
  "apply_operator operator self (Scalar other) =
     build (operator (vec_x self) other) (operator (vec_y self) other)"
| "apply_operator operator self (Vec other) =
     build (operator (vec_x self) (vec_x other)) (operator (vec_y self) (vec_y other))"
| "apply_operator operator self Other = Inl NotImplementedError"

text \<open>The double-under arithmetic methods.\<close>

definition dunder_add :: "Vector2D \<Rightarrow> operand \<Rightarrow> error + Vector2D" where
  "dunder_add self other = apply_operator add self other"

definition dunder_radd :: "Vector2D \<Rightarrow> operand \<Rightarrow> error + Vector2D" where
  "dunder_radd self other = apply_operator add self other"

definition dunder_mod :: "Vector2D \<Rightarrow> operand \<Rightarrow> error + Vector2D" where
  "dunder_mod self other = apply_operator mod_op self other"

definition dunder_mul :: "Vector2D \<Rightarrow> operand \<Rightarrow> error + Vector2D" where
  "dunder_mul self other = apply_operator mul self other"

definition dunder_rmul :: "Vector2D \<Rightarrow> operand \<Rightarrow> error + Vector2D" where
  "dunder_rmul self other = apply_operator mul self other"

definition dunder_neg :: "Vector2D \<Rightarrow> Vector2D" where
  "dunder_neg self = Vector2D (- vec_x self) (- vec_y self)"

definition dunder_sub :: "Vector2D \<Rightarrow> operand \<Rightarrow> error + Vector2D" where
  "dunder_sub self other = apply_operator sub self other"

definition dunder_rsub :: "Vector2D \<Rightarrow> operand \<Rightarrow> error + Vector2D" where
  "dunder_rsub self other = apply_operator sub self other"

definition dunder_truediv :: "Vector2D \<Rightarrow> operand \<Rightarrow> error + Vector2D" where
  "dunder_truediv self other = apply_operator truediv self other"

text \<open>
  The expression \<open>s - v\<close> with a number \<open>s\<close> on the left and a vector \<open>v\<close> on the
  right: \<open>float.__sub__\<close> returns \<open>NotImplemented\<close> for a Vector2D, so Python calls the
  reflected method \<open>v.__rsub__(s)\<close>.
\<close>

definition scalar_minus_vector :: "real \<Rightarrow> Vector2D \<Rightarrow> error + Vector2D" where
  "scalar_minus_vector s v = dunder_rsub v (Scalar s)"

text \<open>\<open>__eq__\<close>: equality within the absolute tolerance \<open>1e-12\<close>.\<close>

definition dunder_eq :: "Vector2D \<Rightarrow> Vector2D \<Rightarrow> bool" where
  "dunder_eq self other \<longleftrightarrow>
     \<bar>vec_x other - vec_x self\<bar> < 1 / 10 ^ 12 \<and> \<bar>vec_y other - vec_y self\<bar> < 1 / 10 ^ 12"

text \<open>The property \<open>magnitude\<close>.\<close>

definition magnitude :: "Vector2D \<Rightarrow> real" where
  "magnitude self = sqrt ((vec_x self * vec_x self) + (vec_y self * vec_y self))"

text \<open>\<open>__bool__\<close>: \<open>bool(self.magnitude)\<close>.\<close>

definition dunder_bool :: "Vector2D \<Rightarrow> bool" where
  "dunder_bool self \<longleftrightarrow> magnitude self \<noteq> 0"

text \<open>
  The property \<open>unit\<close>: both components are divided by the magnitude, which raises
  ZeroDivisionError on the zero vector.
\<close>

definition unit :: "Vector2D \<Rightarrow> error + Vector2D" where
  "unit self = build (truediv (vec_x self) (magnitude self)) (truediv (vec_y self) (magnitude self))"

text \<open>
  \<open>resize\<close>: the explicit \<open>raise ZeroDivisionError\<close>, then
  \<open>(magnitude / self.magnitude) * self\<close>, a number times a vector, which Python
  resolves to \<open>self.__rmul__\<close>. The parameter \<open>magnitude\<close> of the source is
  \<open>target\<close> here, the name being taken by the property.
\<close>

definition resize :: "Vector2D \<Rightarrow> real \<Rightarrow> error + Vector2D" where
  "resize self target =
     (if magnitude self = 0 then Inl ZeroDivisionError
      else dunder_rmul self (Scalar (target / magnitude self)))"

text \<open>
  Addition, subtraction and multiplication never raise on numbers and vectors; the
  models and the flock use these total forms, which agree with the methods above
  (\<open>dunder_add_Vec\<close>, \<open>dunder_sub_Vec\<close>, \<open>dunder_mul_Scalar\<close>, \<open>dunder_rmul_Scalar\<close>).
\<close>

definition vadd :: "Vector2D \<Rightarrow> Vector2D \<Rightarrow> Vector2D" where
  "vadd v w = Vector2D (vec_x v + vec_x w) (vec_y v + vec_y w)"

definition vsub :: "Vector2D \<Rightarrow> Vector2D \<Rightarrow> Vector2D" where
  "vsub v w = Vector2D (vec_x v - vec_x w) (vec_y v - vec_y w)"

definition smul :: "real \<Rightarrow> Vector2D \<Rightarrow> Vector2D" where
  "smul s v = Vector2D (vec_x v * s) (vec_y v * s)"

section \<open>Toroidal models (src/boids/models.py)\<close>

text \<open>
  \<open>Model.frame = Vector2D(WINDOW_WIDTH, WINDOW_HEIGHT)\<close> is a class attribute built from
  two constants of \<open>constants.py\<close>; it is the parameter \<open>frm\<close> of every function that
  reads it.
\<close>

text \<open>
  \<open>math.copysign(a, b)\<close>: the absolute value of \<open>a\<close> with the sign of \<open>b\<close>; a zero
  \<open>b\<close> counts as positive (the reals have no negative zero).
\<close>

definition copysign :: "real \<Rightarrow> real \<Rightarrow> real" where
  "copysign a b = (if b < 0 then - \<bar>a\<bar> else \<bar>a\<bar>)"

text \<open>\<open>class Model\<close>, and \<open>class Boid(Model)\<close> with its two private vectors.\<close>

record model =
  position :: Vector2D

record boid = model +
  velocity :: Vector2D
  acceleration :: Vector2D

text \<open>\<open>Boid.max_velocity\<close> and \<open>Boid.max_acceleration\<close>.\<close>

definition max_velocity :: real where
  "max_velocity = 200"

definition max_acceleration :: real where
  "max_acceleration = 50"

text \<open>\<open>Model.__init__\<close>: \<open>self.position = position % self.frame\<close>.\<close>

definition Model_init :: "Vector2D \<Rightarrow> Vector2D \<Rightarrow> error + model" where
  "Model_init frm pos =
     (case dunder_mod pos (Vec frm) of
        Inl e \<Rightarrow> Inl e
      | Inr p \<Rightarrow> Inr \<lparr>position = p\<rparr>)"

text \<open>\<open>Model.displacement\<close>, \<open>Model.distance\<close> and \<open>Model.get_image\<close>.\<close>

definition displacement :: "Vector2D \<Rightarrow> 'a model_scheme \<Rightarrow> 'b model_scheme \<Rightarrow> Vector2D" where
  "displacement frm self other =
     (let delta_x = vec_x (position other) - vec_x (position self);
          delta_y = vec_y (position other) - vec_y (position self)
      in Vector2D
           (if \<bar>2 * delta_x\<bar> > vec_x frm then delta_x - copysign (vec_x frm) delta_x else delta_x)
           (if \<bar>2 * delta_y\<bar> > vec_y frm then delta_y - copysign (vec_y frm) delta_y else delta_y))"

definition distance :: "Vector2D \<Rightarrow> 'a model_scheme \<Rightarrow> 'b model_scheme \<Rightarrow> real" where
  "distance frm self other = magnitude (displacement frm self other)"

definition get_image :: "Vector2D \<Rightarrow> 'a model_scheme \<Rightarrow> 'b model_scheme \<Rightarrow> Vector2D" where
  "get_image frm self other = vadd (position other) (displacement frm other self)"


text \<open>The setter of \<open>acceleration\<close> (strict comparison) and of \<open>velocity\<close> (\<open>>=\<close>).\<close>

definition set_acceleration :: "boid \<Rightarrow> Vector2D \<Rightarrow> error + boid" where
  "set_acceleration self new_acceleration =
     (if magnitude new_acceleration > max_acceleration then
        (case unit new_acceleration of
           Inl e \<Rightarrow> Inl e
         | Inr u \<Rightarrow> Inr (self\<lparr>acceleration := smul max_acceleration u\<rparr>))
      else Inr (self\<lparr>acceleration := new_acceleration\<rparr>))"

definition set_velocity :: "boid \<Rightarrow> Vector2D \<Rightarrow> error + boid" where
  "set_velocity self new_velocity =
     (if magnitude new_velocity \<ge> max_velocity then
        (case unit new_velocity of
           Inl e \<Rightarrow> Inl e
         | Inr u \<Rightarrow> Inr (self\<lparr>velocity := smul max_velocity u\<rparr>))
      else Inr (self\<lparr>velocity := new_velocity\<rparr>))"

text \<open>
  \<open>Boid.update\<close>: the velocity is assigned through its setter, then the position is
  advanced with the new velocity and wrapped into the frame.
\<close>

definition Boid_update :: "Vector2D \<Rightarrow> real \<Rightarrow> boid \<Rightarrow> error + boid" where
  "Boid_update frm timestep self =
     (case set_velocity self (vadd (velocity self) (smul timestep (acceleration self))) of
        Inl e \<Rightarrow> Inl e
      | Inr self' \<Rightarrow>
          (case dunder_mod (vadd (position self') (smul timestep (velocity self'))) (Vec frm) of
             Inl e \<Rightarrow> Inl e
           | Inr p \<Rightarrow> Inr (self'\<lparr>position := p\<rparr>)))"

text \<open>
  A position lies within the frame when each coordinate is between 0 and the extent of
  its axis. The upper bound is included: \<open>position % frame\<close> is below the extent, and an
  Obstacle rounds its wrapped position to the integer grid, which can reach it.
\<close>

definition within_frame :: "Vector2D \<Rightarrow> 'a model_scheme \<Rightarrow> bool" where
  "within_frame frm m \<longleftrightarrow>
     0 \<le> vec_x (position m) \<and> vec_x (position m) \<le> vec_x frm \<and>
     0 \<le> vec_y (position m) \<and> vec_y (position m) \<le> vec_y frm"

text \<open>
  \<open>Obstacle.__init__\<close>: the wrapped position is rounded to the integer grid;
  \<open>round\<close> on a float rounds half to even. (The vertex list used for drawing is left
  out.)
\<close>

definition py_round :: "real \<Rightarrow> real" where
  "py_round a =
     (let f = \<lfloor>a\<rfloor>; r = a - of_int f
      in if r < 1 / 2 then of_int f
         else if r > 1 / 2 then of_int (f + 1)
         else if even f then of_int f else of_int (f + 1))"

definition Obstacle_init :: "Vector2D \<Rightarrow> Vector2D \<Rightarrow> error + model" where
  "Obstacle_init frm pos =
     (case Model_init frm pos of
        Inl e \<Rightarrow> Inl e
      | Inr m \<Rightarrow>
          Inr \<lparr>position = Vector2D (py_round (vec_x (position m))) (py_round (vec_y (position m)))\<rparr>)"

section \<open>Flocks (src/boids/system.py)\<close>

text \<open>
  \<open>utilities.mean\<close>: \<open>sum(data) * (1 / len(data))\<close>. The sum starts from the number
  0, to which the first vector is added componentwise; \<open>1 / len(data)\<close> raises on an
  empty collection.
\<close>

definition mean :: "Vector2D list \<Rightarrow> error + Vector2D" where
  "mean data =
     (if length data = 0 then Inl ZeroDivisionError
      else Inr (smul (1 / real (length data)) (foldl vadd Zero data)))"

text \<open>
  A generator whose items may raise, consumed front to back (\<open>list(data)\<close> in
  \<open>mean\<close>): the first exception ends the consumption.
\<close>

fun collect :: "(error + 'a) list \<Rightarrow> error + 'a list" where
  "collect [] = Inr []"
| "collect (r # rs) =
     (case r of
        Inl e \<Rightarrow> Inl e
      | Inr v \<Rightarrow> (case collect rs of Inl e \<Rightarrow> Inl e | Inr vs \<Rightarrow> Inr (v # vs)))"

text \<open>
  Boids are mutable objects, shared between the population list and the flocks. The
  population list is the store: an object is identified by its index there, and the
  obstacles likewise by their index in the obstacle list. The dictionaries
  \<open>neighbors\<close> and \<open>obstacles\<close> of a Flock are keyed by object identity (the
  models define neither \<open>__eq__\<close> nor \<open>__hash__\<close>); they are association lists from
  index to distance, in insertion order. Each list holds an object once, as the lists
  that \<open>BoidSystem\<close> builds do.
\<close>

record flock =
  boid :: nat
  radius :: real
  neighbors :: "(nat \<times> real) list"
  obstacles :: "(nat \<times> real) list"
  alignment_coefficient :: real
  cohesion_coefficient :: real
  fear_coefficient :: real
  separation_coefficient :: real

text \<open>
  \<open>Flock.get_neighbors\<close>: the dictionary comprehension over \<open>population\<close>, with the
  chained comparison \<open>0 < distance < radius\<close>.
\<close>

definition get_neighbors ::
  "Vector2D \<Rightarrow> 'a model_scheme \<Rightarrow> 'b model_scheme list \<Rightarrow> real \<Rightarrow> (nat \<times> real) list" where
  "get_neighbors frm b population r =
     [(other_boid, distance frm b m).
        (other_boid, m) \<leftarrow> enumerate 0 population,
        0 < distance frm b m \<and> distance frm b m < r]"

text \<open>\<open>Flock.__init__\<close>, for the boid at index \<open>i\<close> of the population.\<close>

definition Flock_init ::
  "Vector2D \<Rightarrow> nat \<Rightarrow> boid list \<Rightarrow> model list \<Rightarrow> real \<Rightarrow> real \<Rightarrow> real \<Rightarrow> real \<Rightarrow> real \<Rightarrow> flock" where
  "Flock_init frm i population obs r alignment cohesion fear separation =
     \<lparr>boid = i,
      radius = r,
      neighbors = get_neighbors frm (population ! i) population r,
      obstacles = get_neighbors frm (population ! i) obs r,
      alignment_coefficient = alignment,
      cohesion_coefficient = cohesion,
      fear_coefficient = fear,
      separation_coefficient = separation\<rparr>"

text \<open>
  The cached properties. Each is computed at its first access, from the objects as they
  are at that moment: \<open>pop\<close> and \<open>obs\<close> are the population and the obstacles then.
\<close>

definition steering_vector :: "boid list \<Rightarrow> flock \<Rightarrow> Vector2D \<Rightarrow> error + Vector2D" where
  "steering_vector pop self desired_velocity =
     (if \<not> dunder_bool desired_velocity then Inr Zero
      else (case resize desired_velocity max_velocity of
              Inl e \<Rightarrow> Inl e
            | Inr v \<Rightarrow> Inr (vsub v (velocity (pop ! boid self)))))"

definition average_velocity :: "boid list \<Rightarrow> flock \<Rightarrow> error + Vector2D" where
  "average_velocity pop self =
     mean (map (\<lambda>(neighbor, d). velocity (pop ! neighbor)) (neighbors self))"

definition center_of_mass :: "Vector2D \<Rightarrow> boid list \<Rightarrow> flock \<Rightarrow> error + Vector2D" where
  "center_of_mass frm pop self =
     mean (map (\<lambda>(neighbor, d). get_image frm (pop ! neighbor) (pop ! boid self)) (neighbors self))"

definition alignment_vector :: "boid list \<Rightarrow> flock \<Rightarrow> error + Vector2D" where
  "alignment_vector pop self =
     (case average_velocity pop self of
        Inl e \<Rightarrow> Inl e
      | Inr v \<Rightarrow> steering_vector pop self v)"

definition cohesion_vector :: "Vector2D \<Rightarrow> boid list \<Rightarrow> flock \<Rightarrow> error + Vector2D" where
  "cohesion_vector frm pop self =
     (case center_of_mass frm pop self of
        Inl e \<Rightarrow> Inl e
      | Inr c \<Rightarrow> steering_vector pop self (vsub c (position (pop ! boid self))))"

definition fear_vector :: "Vector2D \<Rightarrow> boid list \<Rightarrow> model list \<Rightarrow> flock \<Rightarrow> error + Vector2D" where
  "fear_vector frm pop obs self =
     (case collect (map (\<lambda>(obstacle, d).
                       dunder_truediv (displacement frm (obs ! obstacle) (pop ! boid self)) (Scalar d))
                     (obstacles self)) of
        Inl e \<Rightarrow> Inl e
      | Inr data \<Rightarrow>
          (case mean data of
             Inl e \<Rightarrow> Inl e
           | Inr correction_vector \<Rightarrow> steering_vector pop self correction_vector))"

definition separation_vector :: "Vector2D \<Rightarrow> boid list \<Rightarrow> flock \<Rightarrow> error + Vector2D" where
  "separation_vector frm pop self =
     (case collect (map (\<lambda>(neighbor, d).
                       dunder_truediv (displacement frm (pop ! neighbor) (pop ! boid self)) (Scalar d))
                     (neighbors self)) of
        Inl e \<Rightarrow> Inl e
      | Inr data \<Rightarrow>
          (case mean data of
             Inl e \<Rightarrow> Inl e
           | Inr correction_vector \<Rightarrow> steering_vector pop self correction_vector))"

text \<open>
  \<open>Flock.apply_impulse\<close>, in two parts: \<open>impulse\<close> is the value of the local variable
  \<open>impulse\<close> when the last line is reached, and \<open>apply_impulse\<close> assigns it to the
  acceleration of the flock's boid through the setter.
\<close>

definition impulse :: "Vector2D \<Rightarrow> boid list \<Rightarrow> model list \<Rightarrow> flock \<Rightarrow> error + Vector2D" where
  "impulse frm pop obs self =
     (case (if neighbors self \<noteq> [] then
              (case alignment_vector pop self of
                 Inl e \<Rightarrow> Inl e
               | Inr av \<Rightarrow>
                   (case cohesion_vector frm pop self of
                      Inl e \<Rightarrow> Inl e
                    | Inr cv \<Rightarrow>
                        (case separation_vector frm pop self of
                           Inl e \<Rightarrow> Inl e
                         | Inr sv \<Rightarrow>
                             Inr (vadd (vadd (vadd Zero (smul (alignment_coefficient self) av))
                                             (smul (cohesion_coefficient self) cv))
                                       (smul (separation_coefficient self) sv)))))
            else Inr Zero) of
        Inl e \<Rightarrow> Inl e
      | Inr imp \<Rightarrow>
          (if obstacles self \<noteq> [] then
             (case fear_vector frm pop obs self of
                Inl e \<Rightarrow> Inl e
              | Inr fv \<Rightarrow> Inr (vadd imp (smul (fear_coefficient self) fv)))
           else Inr imp))"

definition apply_impulse :: "Vector2D \<Rightarrow> boid list \<Rightarrow> model list \<Rightarrow> flock \<Rightarrow> error + boid list" where
  "apply_impulse frm pop obs self =
     (case impulse frm pop obs self of
        Inl e \<Rightarrow> Inl e
      | Inr imp \<Rightarrow>
          (case set_acceleration (pop ! boid self) imp of
             Inl e \<Rightarrow> Inl e
           | Inr b \<Rightarrow> Inr (pop[boid self := b])))"

section \<open>The simulation system (src/boids/system.py)\<close>

record boid_system =
  population :: "boid list"
  sys_obstacles :: "model list"
  sys_radius :: real
  flocks :: "flock list"
  alignment :: real
  cohesion :: real
  fear :: real
  separation :: real

text \<open>
  \<open>BoidSystem.update\<close>. The list comprehension builds one Flock per boid; the loop
  then, flock by flock, applies the impulse and updates the flock's boid.
\<close>

definition build_flocks :: "Vector2D \<Rightarrow> boid_system \<Rightarrow> flock list" where
  "build_flocks frm self =
     map (\<lambda>i. Flock_init frm i (population self) (sys_obstacles self) (sys_radius self)
                 (alignment self) (cohesion self) (fear self) (separation self))
         [0..<length (population self)]"

fun update_loop :: "Vector2D \<Rightarrow> model list \<Rightarrow> real \<Rightarrow> flock list \<Rightarrow> boid list \<Rightarrow> error + boid list" where
  "update_loop frm obs timestep [] pop = Inr pop"
| "update_loop frm obs timestep (fl # fls) pop =
     (case apply_impulse frm pop obs fl of
        Inl e \<Rightarrow> Inl e
      | Inr pop' \<Rightarrow>
          (case Boid_update frm timestep (pop' ! boid fl) of
             Inl e \<Rightarrow> Inl e
           | Inr b \<Rightarrow> update_loop frm obs timestep fls (pop'[boid fl := b])))"

definition update :: "Vector2D \<Rightarrow> boid_system \<Rightarrow> real \<Rightarrow> error + boid_system" where
  "update frm self timestep =
     (let fls = build_flocks frm self
      in case update_loop frm (sys_obstacles self) timestep fls (population self) of
           Inl e \<Rightarrow> Inl e
         | Inr pop \<Rightarrow> Inr (self\<lparr>population := pop, flocks := fls\<rparr>))"

text \<open>
  The two-phase reference of the specification: with the same flocks, first every
  impulse is computed and assigned, then every boid's motion is integrated.
\<close>

fun impulse_phase :: "Vector2D \<Rightarrow> model list \<Rightarrow> flock list \<Rightarrow> boid list \<Rightarrow> error + boid list" where
  "impulse_phase frm obs [] pop = Inr pop"
| "impulse_phase frm obs (fl # fls) pop =
     (case apply_impulse frm pop obs fl of
        Inl e \<Rightarrow> Inl e
      | Inr pop' \<Rightarrow> impulse_phase frm obs fls pop')"

fun motion_phase :: "Vector2D \<Rightarrow> real \<Rightarrow> flock list \<Rightarrow> boid list \<Rightarrow> error + boid list" where
  "motion_phase frm timestep [] pop = Inr pop"
| "motion_phase frm timestep (fl # fls) pop =
     (case Boid_update frm timestep (pop ! boid fl) of
        Inl e \<Rightarrow> Inl e
      | Inr b \<Rightarrow> motion_phase frm timestep fls (pop[boid fl := b]))"

definition update_two_phase :: "Vector2D \<Rightarrow> boid_system \<Rightarrow> real \<Rightarrow> error + boid_system" where
  "update_two_phase frm self timestep =
     (let fls = build_flocks frm self
      in case impulse_phase frm (sys_obstacles self) fls (population self) of
           Inl e \<Rightarrow> Inl e
         | Inr pop1 \<Rightarrow>
             (case motion_phase frm timestep fls pop1 of
                Inl e \<Rightarrow> Inl e
              | Inr pop2 \<Rightarrow> Inr (self\<lparr>population := pop2, flocks := fls\<rparr>)))"

section \<open>Clients of a Boid\<close>





section \<open>An example system\<close>

text \<open>
  The system that \<open>BoidSystem(0, 0)\<close>, \<open>add_boid(10, 10)\<close> and \<open>add_boid(15, 10)\<close>
  build in a frame of 1000 by 1000: two boids at rest, 5 apart, no obstacle, the default
  radius and coefficients. \<open>flock_of i j\<close> is the Flock of boid \<open>i\<close> there, whose only
  neighbor is boid \<open>j\<close>.
\<close>

definition two_boids_at_rest :: boid_system where
  "two_boids_at_rest =
     \<lparr>population =
        [\<lparr>position = Vector2D 10 10, velocity = Vector2D 0 0, acceleration = Vector2D 0 0\<rparr>,
         \<lparr>position = Vector2D 15 10, velocity = Vector2D 0 0, acceleration = Vector2D 0 0\<rparr>],
      sys_obstacles = [],
      sys_radius = 150,
      flocks = [],
      alignment = 10, cohesion = 10, fear = 10, separation = 12\<rparr>"

definition flock_of :: "nat \<Rightarrow> nat \<Rightarrow> flock" where
  "flock_of i j =
     \<lparr>boid = i, radius = 150, neighbors = [(j, 5)], obstacles = [],
      alignment_coefficient = 10, cohesion_coefficient = 10,
      fear_coefficient = 10, separation_coefficient = 12\<rparr>"

section \<open>Auxiliary facts\<close>

lemma dunder_add_Vec: "dunder_add v (Vec w) = Inr (vadd v w)"
  by (simp add: dunder_add_def build_def add_def vadd_def)

lemma dunder_sub_Vec: "dunder_sub v (Vec w) = Inr (vsub v w)"
  by (simp add: dunder_sub_def build_def sub_def vsub_def)

lemma dunder_mul_Scalar: "dunder_mul v (Scalar s) = Inr (smul s v)"
  by (simp add: dunder_mul_def build_def mul_def smul_def)

lemma dunder_rmul_Scalar: "dunder_rmul v (Scalar s) = Inr (smul s v)"
  by (simp add: dunder_rmul_def build_def mul_def smul_def)

lemma magnitude_nonneg: "0 \<le> magnitude v"
  by (simp add: magnitude_def)

lemma resize_nonzero:
  "magnitude v \<noteq> 0 \<Longrightarrow> resize v t = Inr (smul (t / magnitude v) v)"
  by (simp add: resize_def dunder_rmul_Scalar)

lemma magnitude_axis_x: "magnitude (Vector2D a 0) = \<bar>a\<bar>"
  by (simp add: magnitude_def)

lemma magnitude_3_4: "magnitude (Vector2D 3 4) = 5"
proof -
  have "sqrt 25 = 5" by (rule real_sqrt_unique) simp_all
  then show ?thesis by (simp add: magnitude_def)
qed

lemma wrap_bound:
  fixes d w :: real
  assumes "0 < w" "\<bar>d\<bar> \<le> w"
  shows "\<bar>if \<bar>2 * d\<bar> > w then d - copysign w d else d\<bar> \<le> w / 2"
proof (cases "d < 0")
  case True
  then show ?thesis using assms by (simp add: copysign_def abs_if)
next
  case False
  then show ?thesis using assms by (simp add: copysign_def abs_if)
qed

lemma sq_le_of_abs_le:
  fixes a b :: real
  assumes "\<bar>a\<bar> \<le> b"
  shows "a * a \<le> b * b"
proof -
  have "\<bar>a\<bar> * \<bar>a\<bar> \<le> b * b"
    using assms by (intro mult_mono) auto
  then show ?thesis by simp
qed

lemma mod_op_range:
  assumes "0 < b"
  shows "mod_op a b = Inr (a - b * of_int \<lfloor>a / b\<rfloor>) \<and>
         0 \<le> a - b * of_int \<lfloor>a / b\<rfloor> \<and> a - b * of_int \<lfloor>a / b\<rfloor> < b"
proof -
  have lo: "of_int \<lfloor>a / b\<rfloor> \<le> a / b" and hi: "a / b < of_int \<lfloor>a / b\<rfloor> + 1"
    by linarith+
  have "of_int \<lfloor>a / b\<rfloor> * b \<le> a"
    using lo pos_le_divide_eq [OF assms] by blast
  moreover have "a < (of_int \<lfloor>a / b\<rfloor> + 1) * b"
    using hi pos_divide_less_eq [OF assms] by blast
  ultimately show ?thesis
    using assms by (simp add: mod_op_def algebra_simps)
qed

lemma dunder_mod_frame:
  assumes "0 < vec_x frm" "0 < vec_y frm" "dunder_mod p (Vec frm) = Inr q"
  shows "0 \<le> vec_x q \<and> vec_x q < vec_x frm \<and> 0 \<le> vec_y q \<and> vec_y q < vec_y frm"
proof -
  note mx = mod_op_range [OF assms(1), of "vec_x p"]
  note my = mod_op_range [OF assms(2), of "vec_y p"]
  have "q = Vector2D (vec_x p - vec_x frm * of_int \<lfloor>vec_x p / vec_x frm\<rfloor>)
                     (vec_y p - vec_y frm * of_int \<lfloor>vec_y p / vec_y frm\<rfloor>)"
    using assms(3) mx my by (simp add: dunder_mod_def build_def)
  then show ?thesis using mx my by simp
qed

text \<open>
  The frame invariant: with positive extents, every constructor and \<open>Boid.update\<close>
  leave the position within the frame (an Obstacle when the extents are whole numbers,
  as window sizes are).
\<close>

lemma Model_init_within_frame:
  assumes "0 < vec_x frm" "0 < vec_y frm"
  shows "\<exists>m. Model_init frm pos = Inr m \<and> within_frame frm m \<and>
             vec_x (position m) < vec_x frm \<and> vec_y (position m) < vec_y frm"
  using mod_op_range [OF assms(1), of "vec_x pos"] mod_op_range [OF assms(2), of "vec_y pos"]
  by (simp add: Model_init_def dunder_mod_def build_def within_frame_def)

lemma Boid_update_within_frame:
  assumes "0 < vec_x frm" "0 < vec_y frm" "Boid_update frm timestep b = Inr b'"
  shows "within_frame frm b'"
proof -
  from assms(3) obtain p where
    p: "dunder_mod p (Vec frm) = Inr (position b')"
    by (auto simp: Boid_update_def split: sum.splits)
  show ?thesis
    using dunder_mod_frame [OF assms(1,2) p] by (simp add: within_frame_def)
qed

lemma py_round_bounds:
  assumes "0 \<le> a" "a \<le> of_int n"
  shows "0 \<le> py_round a \<and> py_round a \<le> of_int n"
proof -
  have f0: "0 \<le> \<lfloor>a\<rfloor>" using assms(1) by simp
  have fn: "\<lfloor>a\<rfloor> \<le> n" using assms(2) by (simp add: floor_le_iff)
  have up: "a - of_int \<lfloor>a\<rfloor> \<ge> 1 / 2 \<Longrightarrow> \<lfloor>a\<rfloor> + 1 \<le> n"
  proof -
    assume "a - of_int \<lfloor>a\<rfloor> \<ge> 1 / 2"
    then have "of_int \<lfloor>a\<rfloor> < a" by linarith
    with assms(2) have "of_int \<lfloor>a\<rfloor> < (of_int n :: real)" by linarith
    then show ?thesis by simp
  qed
  show ?thesis
    using f0 fn up by (auto simp: py_round_def Let_def)
qed

lemma Obstacle_init_within_frame:
  assumes "0 < vec_x frm" "0 < vec_y frm" "vec_x frm = of_int w" "vec_y frm = of_int h"
  shows "\<exists>m. Obstacle_init frm pos = Inr m \<and> within_frame frm m"
proof -
  obtain m0 where m0: "Model_init frm pos = Inr m0" "within_frame frm m0"
    using Model_init_within_frame [OF assms(1,2)] by blast
  show ?thesis
    using m0 py_round_bounds [of "vec_x (position m0)" w] py_round_bounds [of "vec_y (position m0)" h] assms(3,4)
    by (simp add: Obstacle_init_def within_frame_def)
qed

lemma in_get_neighbors:
  "(j, d) \<in> set (get_neighbors frm b ms r) \<longleftrightarrow>
     j < length ms \<and> d = distance frm b (ms ! j) \<and> 0 < d \<and> d < r"
  by (auto simp: get_neighbors_def in_set_enumerate_eq)

lemma concat_map_if: "concat (map (\<lambda>x. if P x then [f x] else []) xs) = map f (filter P xs)"
  by (induction xs) simp_all

lemma get_neighbors_map_filter:
  "get_neighbors frm b ms r =
     map (\<lambda>p. (fst p, distance frm b (snd p)))
       (filter (\<lambda>p. 0 < distance frm b (snd p) \<and> distance frm b (snd p) < r) (enumerate 0 ms))"
  by (simp add: get_neighbors_def case_prod_unfold concat_map_if)

lemma distinct_keys_get_neighbors: "distinct (map fst (get_neighbors frm b ms r))"
proof -
  have "distinct (map fst (enumerate 0 ms))" by simp
  then have "distinct (map fst (filter (\<lambda>p. 0 < distance frm b (snd p) \<and> distance frm b (snd p) < r)
                                  (enumerate 0 ms)))"
    by (rule distinct_map_filter)
  then show ?thesis
    by (simp add: get_neighbors_map_filter comp_def)
qed

lemma distance_self:
  assumes "0 < vec_x frm" "0 < vec_y frm" "position a = position b"
  shows "distance frm a b = 0"
  using assms by (simp add: distance_def displacement_def magnitude_def)

lemma displacement_eval:
  "displacement frm \<lparr>position = Vector2D ax ay, \<dots> = ra\<rparr> \<lparr>position = Vector2D bx by, \<dots> = rb\<rparr> =
     Vector2D (if \<bar>2 * (bx - ax)\<bar> > vec_x frm then (bx - ax) - copysign (vec_x frm) (bx - ax) else bx - ax)
              (if \<bar>2 * (by - ay)\<bar> > vec_y frm then (by - ay) - copysign (vec_y frm) (by - ay) else by - ay)"
  by (simp add: displacement_def Let_def)

lemma collect_all_Inr:
  "collect (map (\<lambda>x. Inr (f x)) xs) = Inr (map f xs)"
  by (induction xs) simp_all

lemma dunder_truediv_Scalar:
  "d \<noteq> 0 \<Longrightarrow> dunder_truediv v (Scalar d) = Inr (Vector2D (vec_x v / d) (vec_y v / d))"
  by (simp add: dunder_truediv_def truediv_def build_def)

lemma collect_divisions:
  assumes "\<forall>(k, d) \<in> set xs. d \<noteq> 0"
  shows "collect (map (\<lambda>(k, d). dunder_truediv (f k) (Scalar d)) xs)
         = Inr (map (\<lambda>(k, d). Vector2D (vec_x (f k) / d) (vec_y (f k) / d)) xs)"
  using assms by (induction xs) (auto simp: dunder_truediv_Scalar)

lemma steering_vector_returns:
  "steering_vector pop fl dv =
     Inr (if magnitude dv = 0 then Zero
          else vsub (smul (max_velocity / magnitude dv) dv) (velocity (pop ! boid fl)))"
  by (simp add: steering_vector_def dunder_bool_def resize_nonzero)

lemma mean_nonempty:
  "data \<noteq> [] \<Longrightarrow> mean data = Inr (smul (1 / real (length data)) (foldl vadd Zero data))"
  by (simp add: mean_def)

lemma mean_empty: "mean [] = Inl ZeroDivisionError"
  by (simp add: mean_def)

lemma Flock_init_distances_positive:
  assumes "fl = Flock_init frm i ps obs r al co fe se"
  shows "(\<forall>(k, d) \<in> set (neighbors fl). 0 < d) \<and> (\<forall>(k, d) \<in> set (obstacles fl). 0 < d)"
  using assms by (auto simp: Flock_init_def in_get_neighbors)

lemma boid_displacement_eval:
  "displacement frm \<lparr>position = Vector2D ax ay, velocity = va, acceleration = aa\<rparr>
                    \<lparr>position = Vector2D bx by, velocity = vb, acceleration = ab\<rparr> =
     Vector2D (if \<bar>2 * (bx - ax)\<bar> > vec_x frm then (bx - ax) - copysign (vec_x frm) (bx - ax) else bx - ax)
              (if \<bar>2 * (by - ay)\<bar> > vec_y frm then (by - ay) - copysign (vec_y frm) (by - ay) else by - ay)"
  by (simp add: displacement_def Let_def)

lemma vadd_Zero_left: "vadd Zero v = v"
  by (cases v) (simp add: vadd_def Zero_def)

lemma unit_nonzero:
  "magnitude v \<noteq> 0 \<Longrightarrow> unit v = Inr (Vector2D (vec_x v / magnitude v) (vec_y v / magnitude v))"
  by (simp add: unit_def truediv_def build_def)

lemma set_acceleration_returns:
  "set_acceleration b v =
     Inr (b\<lparr>acceleration :=
            (if magnitude v > max_acceleration then smul (max_acceleration / magnitude v) v else v)\<rparr>)"
proof (cases "magnitude v > max_acceleration")
  case True
  then have nz: "magnitude v \<noteq> 0" by (simp add: max_acceleration_def)
  show ?thesis using True by (simp add: set_acceleration_def unit_nonzero [OF nz] smul_def)
next
  case False
  then show ?thesis by (simp add: set_acceleration_def)
qed

lemma set_velocity_returns:
  "set_velocity b v =
     Inr (b\<lparr>velocity :=
            (if magnitude v \<ge> max_velocity then smul (max_velocity / magnitude v) v else v)\<rparr>)"
proof (cases "magnitude v \<ge> max_velocity")
  case True
  then have nz: "magnitude v \<noteq> 0" by (simp add: max_velocity_def)
  show ?thesis using True by (simp add: set_velocity_def unit_nonzero [OF nz] smul_def)
next
  case False
  then show ?thesis by (simp add: set_velocity_def)
qed

lemma fear_vector_returns:
  assumes "\<forall>(k, d) \<in> set (obstacles fl). 0 < d" "obstacles fl \<noteq> []"
  shows "\<exists>v. fear_vector frm pop obs' fl = Inr v"
proof -
  have nz: "\<forall>(k, d) \<in> set (obstacles fl). d \<noteq> 0"
    using assms(1) by fastforce
  note co = collect_divisions [OF nz, of "\<lambda>k. displacement frm (obs' ! k) (pop ! boid fl)"]
  show ?thesis
    using assms(2) by (simp add: fear_vector_def co mean_nonempty steering_vector_returns)
qed

text \<open>
  A flock with one obstacle in range and no neighbor: in a frame of 1000 by 1000, a boid
  at rest at (10, 10), alone in the population, and an obstacle at (11, 10), with the
  radius 150 of \<open>BoidSystem\<close>.
\<close>

lemma example_obstacles:
  "obstacles (Flock_init (Vector2D 1000 1000) 0
       [\<lparr>position = Vector2D 10 10, velocity = Vector2D 0 0, acceleration = Vector2D 0 0\<rparr>]
       [\<lparr>position = Vector2D 11 10\<rparr>] 150 al co fe se) = [(0, 1)]"
  by (simp add: Flock_init_def get_neighbors_def distance_def displacement_def
      copysign_def magnitude_axis_x)

lemma example_neighbors:
  "neighbors (Flock_init (Vector2D 1000 1000) 0
       [\<lparr>position = Vector2D 10 10, velocity = Vector2D 0 0, acceleration = Vector2D 0 0\<rparr>]
       [\<lparr>position = Vector2D 11 10\<rparr>] 150 al co fe se) = []"
  by (simp add: Flock_init_def get_neighbors_def distance_def displacement_def
      copysign_def magnitude_axis_x)

lemma example_fear_vector:
  "fear_vector (Vector2D 1000 1000)
       [\<lparr>position = Vector2D 10 10, velocity = Vector2D 0 0, acceleration = Vector2D 0 0\<rparr>]
       [\<lparr>position = Vector2D 11 10\<rparr>]
       (Flock_init (Vector2D 1000 1000) 0
         [\<lparr>position = Vector2D 10 10, velocity = Vector2D 0 0, acceleration = Vector2D 0 0\<rparr>]
         [\<lparr>position = Vector2D 11 10\<rparr>] 150 al co fe se) = Inr (Vector2D (- 200) 0)"
proof -
  have b: "boid (Flock_init (Vector2D 1000 1000) 0
       [\<lparr>position = Vector2D 10 10, velocity = Vector2D 0 0, acceleration = Vector2D 0 0\<rparr>]
       [\<lparr>position = Vector2D 11 10\<rparr>] 150 al co fe se) = 0"
    by (simp add: Flock_init_def)
  show ?thesis
    by (simp add: fear_vector_def example_obstacles b dunder_truediv_Scalar displacement_def
        copysign_def mean_def vadd_def Zero_def smul_def steering_vector_returns
        magnitude_axis_x max_velocity_def vsub_def)
qed






lemma impulse_eval:
  assumes "neighbors fl = [(j, d)]" "obstacles fl = []" "d \<noteq> 0"
    and "steering_vector pop fl (velocity (pop ! j)) = Inr av"
    and "steering_vector pop fl
           (vsub (get_image frm (pop ! j) (pop ! boid fl)) (position (pop ! boid fl))) = Inr cv"
    and "steering_vector pop fl
           (Vector2D (vec_x (displacement frm (pop ! j) (pop ! boid fl)) / d)
                     (vec_y (displacement frm (pop ! j) (pop ! boid fl)) / d)) = Inr sv"
  shows "impulse frm pop obs fl =
           Inr (vadd (vadd (vadd Zero (smul (alignment_coefficient fl) av))
                            (smul (cohesion_coefficient fl) cv))
                     (smul (separation_coefficient fl) sv))"
proof -
  have smul1: "\<And>v. smul 1 v = v" by (simp add: smul_def)
  have av: "alignment_vector pop fl = Inr av"
    using assms(1,4) by (simp add: alignment_vector_def average_velocity_def mean_def vadd_Zero_left smul1)
  have cv: "cohesion_vector frm pop fl = Inr cv"
    using assms(1,5) by (simp add: cohesion_vector_def center_of_mass_def mean_def vadd_Zero_left smul1)
  have sv: "separation_vector frm pop fl = Inr sv"
    using assms(1,3,6)
    by (simp add: separation_vector_def dunder_truediv_Scalar mean_def vadd_Zero_left smul1)
  show ?thesis
    using assms(1,2) av cv sv by (simp add: impulse_def)
qed

lemma impulse_reads_positions_and_velocities:
  assumes p: "\<And>j. position (pop ! j) = position (pop' ! j)"
    and v: "\<And>j. velocity (pop ! j) = velocity (pop' ! j)"
  shows "impulse frm pop obs fl = impulse frm pop' obs fl"
proof -
  have st: "\<And>dv. steering_vector pop fl dv = steering_vector pop' fl dv"
    by (simp add: steering_vector_returns v)
  have d: "\<And>j k. displacement frm (pop ! j) (pop ! k) = displacement frm (pop' ! j) (pop' ! k)"
    by (simp add: displacement_def p)
  have d': "\<And>j k. displacement frm (obs ! j) (pop ! k) = displacement frm (obs ! j) (pop' ! k)"
    by (simp add: displacement_def p)
  have al: "alignment_vector pop fl = alignment_vector pop' fl"
    by (simp add: alignment_vector_def average_velocity_def v st cong: sum.case_cong)
  have co: "cohesion_vector frm pop fl = cohesion_vector frm pop' fl"
    by (simp add: cohesion_vector_def center_of_mass_def get_image_def p d st cong: sum.case_cong)
  have se: "separation_vector frm pop fl = separation_vector frm pop' fl"
    by (simp add: separation_vector_def d st cong: sum.case_cong)
  have fe: "fear_vector frm pop obs fl = fear_vector frm pop' obs fl"
    by (simp add: fear_vector_def d' st cong: sum.case_cong)
  show ?thesis
    unfolding impulse_def al co se fe by (rule refl)
qed

lemma apply_impulse_keeps_positions_and_velocities:
  assumes "apply_impulse frm pop obs fl = Inr pop'"
  shows "position (pop' ! j) = position (pop ! j) \<and> velocity (pop' ! j) = velocity (pop ! j)"
proof -
  from assms obtain imp where
    pop': "pop' = pop[boid fl := (pop ! boid fl)\<lparr>acceleration :=
             (if magnitude imp > max_acceleration then smul (max_acceleration / magnitude imp) imp
              else imp)\<rparr>]"
    by (auto simp: apply_impulse_def set_acceleration_returns split: sum.splits)
  show ?thesis
  proof (cases "boid fl < length pop")
    case True
    then show ?thesis by (simp add: pop' nth_list_update)
  next
    case False
    then have "length pop \<le> boid fl" by simp
    then show ?thesis by (simp add: pop' list_update_beyond)
  qed
qed

text \<open>
  One tick of the example system, step by step: the flocks, then for each flock the
  impulse and the motion, on the live population as \<open>update\<close> runs them and on the
  snapshot as the two-phase reference does.
\<close>

lemma two_boids_flocks:
  "build_flocks (Vector2D 1000 1000) two_boids_at_rest = [flock_of 0 (Suc 0), flock_of (Suc 0) 0]"
  by (simp add: build_flocks_def two_boids_at_rest_def Flock_init_def get_neighbors_def
      distance_def displacement_def copysign_def magnitude_axis_x flock_of_def upt_rec)

lemmas tick_eval =
  apply_impulse_def impulse_def alignment_vector_def average_velocity_def cohesion_vector_def
  center_of_mass_def separation_vector_def mean_def dunder_truediv_Scalar
  steering_vector_returns get_image_def displacement_def copysign_def vadd_def vsub_def
  smul_def Zero_def magnitude_axis_x max_velocity_def max_acceleration_def
  set_acceleration_returns set_velocity_returns flock_of_def Boid_update_def
  dunder_mod_def build_def mod_op_def

lemma first_impulse:
  "apply_impulse (Vector2D 1000 1000)
     [\<lparr>position = Vector2D 10 10, velocity = Vector2D 0 0, acceleration = Vector2D 0 0\<rparr>,
      \<lparr>position = Vector2D 15 10, velocity = Vector2D 0 0, acceleration = Vector2D 0 0\<rparr>]
     [] (flock_of 0 (Suc 0))
   = Inr [\<lparr>position = Vector2D 10 10, velocity = Vector2D 0 0, acceleration = Vector2D (- 50) 0\<rparr>,
          \<lparr>position = Vector2D 15 10, velocity = Vector2D 0 0, acceleration = Vector2D 0 0\<rparr>]"
  by (simp add: tick_eval)

lemma first_motion:
  "Boid_update (Vector2D 1000 1000) 1
     \<lparr>position = Vector2D 10 10, velocity = Vector2D 0 0, acceleration = Vector2D (- 50) 0\<rparr>
   = Inr \<lparr>position = Vector2D 960 10, velocity = Vector2D (- 50) 0, acceleration = Vector2D (- 50) 0\<rparr>"
  by (simp add: tick_eval)

lemma second_impulse_live:
  "apply_impulse (Vector2D 1000 1000)
     [\<lparr>position = Vector2D 960 10, velocity = Vector2D (- 50) 0, acceleration = Vector2D (- 50) 0\<rparr>,
      \<lparr>position = Vector2D 15 10, velocity = Vector2D 0 0, acceleration = Vector2D 0 0\<rparr>]
     [] (flock_of (Suc 0) 0)
   = Inr [\<lparr>position = Vector2D 960 10, velocity = Vector2D (- 50) 0, acceleration = Vector2D (- 50) 0\<rparr>,
          \<lparr>position = Vector2D 15 10, velocity = Vector2D 0 0, acceleration = Vector2D (- 50) 0\<rparr>]"
  by (simp add: tick_eval)

lemma second_motion_live:
  "Boid_update (Vector2D 1000 1000) 1
     \<lparr>position = Vector2D 15 10, velocity = Vector2D 0 0, acceleration = Vector2D (- 50) 0\<rparr>
   = Inr \<lparr>position = Vector2D 965 10, velocity = Vector2D (- 50) 0, acceleration = Vector2D (- 50) 0\<rparr>"
  by (simp add: tick_eval)

lemma second_impulse_snapshot:
  "apply_impulse (Vector2D 1000 1000)
     [\<lparr>position = Vector2D 10 10, velocity = Vector2D 0 0, acceleration = Vector2D (- 50) 0\<rparr>,
      \<lparr>position = Vector2D 15 10, velocity = Vector2D 0 0, acceleration = Vector2D 0 0\<rparr>]
     [] (flock_of (Suc 0) 0)
   = Inr [\<lparr>position = Vector2D 10 10, velocity = Vector2D 0 0, acceleration = Vector2D (- 50) 0\<rparr>,
          \<lparr>position = Vector2D 15 10, velocity = Vector2D 0 0, acceleration = Vector2D 50 0\<rparr>]"
  by (simp add: tick_eval)

lemma second_motion_snapshot:
  "Boid_update (Vector2D 1000 1000) 1
     \<lparr>position = Vector2D 15 10, velocity = Vector2D 0 0, acceleration = Vector2D 50 0\<rparr>
   = Inr \<lparr>position = Vector2D 65 10, velocity = Vector2D 50 0, acceleration = Vector2D 50 0\<rparr>"
  by (simp add: tick_eval)







section \<open>Claims about the vector type\<close>

text \<open>
  C4 (as the code behaves): for the number 1 and the vector (2, 3), the expression
  \<open>1 - Vector2D(2, 3)\<close> evaluates to the vector (1, 2), which is \<open>v - s\<close> componentwise,
  and not to the elementwise scalar result (1 - 2, 1 - 3) = (-1, -2): the reflected
  subtraction applies the operator with the vector as left operand.
\<close>

theorem C4_rsub_operands_swapped:
  "scalar_minus_vector 1 (Vector2D 2 3) = Inr (Vector2D 1 2) \<and>
   scalar_minus_vector 1 (Vector2D 2 3) \<noteq> Inr (Vector2D (1 - 2) (1 - 3))"
  by (simp add: scalar_minus_vector_def dunder_rsub_def build_def sub_def)

section \<open>Claims about the toroidal geometry\<close>

text \<open>
  C5: in a frame of positive extents, for every pair of models,
  \<open>displacement(a, b)\<close> is the negation of \<open>displacement(b, a)\<close>: exactly, and hence
  also under the tolerant equality \<open>__eq__\<close> of vectors.
\<close>

theorem C5_displacement_antisymmetric:
  assumes "0 < vec_x frm" "0 < vec_y frm"
  shows "displacement frm a b = dunder_neg (displacement frm b a) \<and>
         dunder_eq (displacement frm a b) (dunder_neg (displacement frm b a))"
proof -
  have eq: "displacement frm a b = dunder_neg (displacement frm b a)"
    using assms by (auto simp: displacement_def dunder_neg_def copysign_def Let_def)
  show ?thesis using eq by (simp add: dunder_eq_def)
qed

theorem C5_displacement_antisymmetric_witness:
  "(0::real) < 40 \<and> (0::real) < 30 \<and>
   displacement (Vector2D 40 30) \<lparr>position = Vector2D 5 5\<rparr> \<lparr>position = Vector2D 30 15\<rparr> = Vector2D (- 15) 10 \<and>
   displacement (Vector2D 40 30) \<lparr>position = Vector2D 30 15\<rparr> \<lparr>position = Vector2D 5 5\<rparr> = Vector2D 15 (- 10)"
  using C5_displacement_antisymmetric [of "Vector2D 40 30" "\<lparr>position = Vector2D 5 5\<rparr>" "\<lparr>position = Vector2D 30 15\<rparr>"]
  by (simp add: displacement_def copysign_def dunder_neg_def)

text \<open>
  C6: in a frame of width W and height H (both positive), for every pair of models whose
  positions lie within the frame, each component of \<open>displacement(a, b)\<close> is at most
  half the extent of its axis in absolute value, and \<open>distance(a, b)\<close> is at most
  \<open>sqrt ((W/2)\<^sup>2 + (H/2)\<^sup>2)\<close>.
\<close>

theorem C6_displacement_bound:
  assumes "0 < vec_x frm" "0 < vec_y frm" "within_frame frm a" "within_frame frm b"
  shows "\<bar>vec_x (displacement frm a b)\<bar> \<le> vec_x frm / 2 \<and>
         \<bar>vec_y (displacement frm a b)\<bar> \<le> vec_y frm / 2 \<and>
         distance frm a b \<le> sqrt ((vec_x frm / 2)\<^sup>2 + (vec_y frm / 2)\<^sup>2)"
proof -
  have dx: "\<bar>vec_x (position b) - vec_x (position a)\<bar> \<le> vec_x frm"
    using assms(3,4) by (auto simp: within_frame_def)
  have dy: "\<bar>vec_y (position b) - vec_y (position a)\<bar> \<le> vec_y frm"
    using assms(3,4) by (auto simp: within_frame_def)
  have bx: "\<bar>vec_x (displacement frm a b)\<bar> \<le> vec_x frm / 2"
    using wrap_bound [OF assms(1) dx] by (simp add: displacement_def Let_def)
  have by': "\<bar>vec_y (displacement frm a b)\<bar> \<le> vec_y frm / 2"
    using wrap_bound [OF assms(2) dy] by (simp add: displacement_def Let_def)
  have "vec_x (displacement frm a b) * vec_x (displacement frm a b)
        + vec_y (displacement frm a b) * vec_y (displacement frm a b)
        \<le> (vec_x frm / 2) * (vec_x frm / 2) + (vec_y frm / 2) * (vec_y frm / 2)"
    using sq_le_of_abs_le [OF bx] sq_le_of_abs_le [OF by'] by linarith
  then have "distance frm a b \<le> sqrt ((vec_x frm / 2)\<^sup>2 + (vec_y frm / 2)\<^sup>2)"
    by (simp add: distance_def magnitude_def power2_eq_square)
  with bx by' show ?thesis by simp
qed

theorem C6_displacement_bound_witness:
  "(0::real) < 40 \<and> (0::real) < 30 \<and>
   within_frame (Vector2D 40 30) \<lparr>position = Vector2D 5 5\<rparr> \<and>
   within_frame (Vector2D 40 30) \<lparr>position = Vector2D 30 15\<rparr> \<and>
   displacement (Vector2D 40 30) \<lparr>position = Vector2D 5 5\<rparr> \<lparr>position = Vector2D 30 15\<rparr> = Vector2D (- 15) 10 \<and>
   distance (Vector2D 40 30) \<lparr>position = Vector2D 5 5\<rparr> \<lparr>position = Vector2D 30 15\<rparr> \<le> sqrt (20\<^sup>2 + 15\<^sup>2)"
  using C6_displacement_bound [of "Vector2D 40 30" "\<lparr>position = Vector2D 5 5\<rparr>" "\<lparr>position = Vector2D 30 15\<rparr>"]
  by (simp add: within_frame_def displacement_def copysign_def)

text \<open>
  C10: for every two models \<open>a\<close> and \<open>b\<close>, \<open>a.get_image(b)\<close> is a periodic copy of the
  position of \<open>a\<close>: it is that position moved by \<open>k\<close> widths along x and \<open>l\<close> heights
  along y, for some \<open>k\<close> and \<open>l\<close> among -1, 0 and 1.
\<close>

theorem C10_get_image_periodic_copy:
  "\<exists>k l. k \<in> {-1, 0, 1} \<and> l \<in> {-1, 0, 1::int} \<and>
     get_image frm a b =
       Vector2D (vec_x (position a) + of_int k * vec_x frm)
                (vec_y (position a) + of_int l * vec_y frm)"
proof -
  have "\<exists>k\<in>{-1, 0, 1::int}. vec_x (get_image frm a b) = vec_x (position a) + of_int k * vec_x frm"
    by (auto simp: get_image_def displacement_def vadd_def copysign_def Let_def abs_if)
  moreover have "\<exists>l\<in>{-1, 0, 1::int}. vec_y (get_image frm a b) = vec_y (position a) + of_int l * vec_y frm"
    by (auto simp: get_image_def displacement_def vadd_def copysign_def Let_def abs_if)
  ultimately show ?thesis
    by (metis Vector2D.collapse)
qed

section \<open>Claims about the flock\<close>

text \<open>
  C7: in a frame of positive extents, \<open>get_neighbors\<close> maps a candidate (the model at
  index \<open>j\<close> of the population) to \<open>d\<close> if and only if \<open>d\<close> is its wrap-aware
  distance to the owning boid and \<open>0 < d < radius\<close>, strict at both ends. So a model at
  distance exactly \<open>radius\<close> is left out and one at any smaller positive distance is
  kept. Every key occurs once, and a model at the owner's own position, the owner first
  of all, is not a key.
\<close>

theorem C7_get_neighbors_strict:
  assumes "0 < vec_x frm" "0 < vec_y frm"
  shows "((j, d) \<in> set (get_neighbors frm b ms r) \<longleftrightarrow>
            j < length ms \<and> d = distance frm b (ms ! j) \<and> 0 < d \<and> d < r) \<and>
         distinct (map fst (get_neighbors frm b ms r)) \<and>
         (\<forall>k < length ms. position (ms ! k) = position b \<longrightarrow>
            k \<notin> fst ` set (get_neighbors frm b ms r))"
proof -
  have "\<forall>k < length ms. position (ms ! k) = position b \<longrightarrow>
            k \<notin> fst ` set (get_neighbors frm b ms r)"
  proof (intro allI impI notI)
    fix k assume "k < length ms" and same: "position (ms ! k) = position b"
      and "k \<in> fst ` set (get_neighbors frm b ms r)"
    then obtain d where "(k, d) \<in> set (get_neighbors frm b ms r)" by auto
    then have "0 < distance frm b (ms ! k)" by (simp add: in_get_neighbors)
    moreover have "distance frm b (ms ! k) = 0"
      using distance_self [OF assms same [symmetric]] .
    ultimately show False by simp
  qed
  then show ?thesis
    by (simp add: in_get_neighbors distinct_keys_get_neighbors)
qed

theorem C7_get_neighbors_strict_witness:
  "(0::real) < 40 \<and> (0::real) < 30 \<and>
   get_neighbors (Vector2D 40 30) \<lparr>position = Vector2D 20 15\<rparr>
     [\<lparr>position = Vector2D 20 15\<rparr>, \<lparr>position = Vector2D 23 19\<rparr>, \<lparr>position = Vector2D 30 15\<rparr>] 10
     = [(1, 5)] \<and>
   0 \<notin> fst ` set (get_neighbors (Vector2D 40 30) \<lparr>position = Vector2D 20 15\<rparr>
     [\<lparr>position = Vector2D 20 15\<rparr>, \<lparr>position = Vector2D 23 19\<rparr>, \<lparr>position = Vector2D 30 15\<rparr>] 10)"
  using C7_get_neighbors_strict [of "Vector2D 40 30" 1 5 "\<lparr>position = Vector2D 20 15\<rparr>"
      "[\<lparr>position = Vector2D 20 15\<rparr>, \<lparr>position = Vector2D 23 19\<rparr>, \<lparr>position = Vector2D 30 15\<rparr>]" 10]
  by (simp add: get_neighbors_def distance_def displacement_eval copysign_def
      magnitude_3_4 magnitude_axis_x)

text \<open>
  C9: for every Flock built by the constructor, every distance stored in the neighbor
  and in the obstacle mapping is strictly positive. Hence, whatever the population and
  the obstacles are when the cached properties are computed, no division
  \<open>displacement / distance\<close> of \<open>separation_vector\<close> or \<open>fear_vector\<close> raises, and on
  a non-empty mapping (the guard of \<open>apply_impulse\<close>) both properties return a vector.
\<close>

theorem C9_distances_positive:
  assumes "fl = Flock_init frm i ps obs r al co fe se"
  shows "(\<forall>(k, d) \<in> set (neighbors fl). 0 < d) \<and>
         (\<forall>(k, d) \<in> set (obstacles fl). 0 < d) \<and>
         (\<exists>data. collect (map (\<lambda>(neighbor, d).
                     dunder_truediv (displacement frm (pop ! neighbor) (pop ! boid fl)) (Scalar d))
                   (neighbors fl)) = Inr data) \<and>
         (\<exists>data. collect (map (\<lambda>(obstacle, d).
                     dunder_truediv (displacement frm (obs' ! obstacle) (pop ! boid fl)) (Scalar d))
                   (obstacles fl)) = Inr data) \<and>
         (neighbors fl \<noteq> [] \<longrightarrow> (\<exists>v. separation_vector frm pop fl = Inr v)) \<and>
         (obstacles fl \<noteq> [] \<longrightarrow> (\<exists>v. fear_vector frm pop obs' fl = Inr v))"
proof -
  note pos = Flock_init_distances_positive [OF assms]
  have nz_n: "\<forall>(k, d) \<in> set (neighbors fl). d \<noteq> 0"
    using pos by fastforce
  have nz_o: "\<forall>(k, d) \<in> set (obstacles fl). d \<noteq> 0"
    using pos by fastforce
  note cn = collect_divisions [OF nz_n, of "\<lambda>k. displacement frm (pop ! k) (pop ! boid fl)"]
  note co = collect_divisions [OF nz_o, of "\<lambda>k. displacement frm (obs' ! k) (pop ! boid fl)"]
  have sep: "neighbors fl \<noteq> [] \<longrightarrow> (\<exists>v. separation_vector frm pop fl = Inr v)"
    by (simp add: separation_vector_def cn mean_nonempty steering_vector_returns)
  have fear: "obstacles fl \<noteq> [] \<longrightarrow> (\<exists>v. fear_vector frm pop obs' fl = Inr v)"
    by (simp add: fear_vector_def co mean_nonempty steering_vector_returns)
  show ?thesis
    using pos cn co sep fear by simp
qed

theorem C9_distances_positive_witness:
  "neighbors (Flock_init (Vector2D 40 30) 0
       [\<lparr>position = Vector2D 20 15, velocity = Zero, acceleration = Zero\<rparr>,
        \<lparr>position = Vector2D 23 19, velocity = Zero, acceleration = Zero\<rparr>]
       [\<lparr>position = Vector2D 30 15\<rparr>] 12 1 1 1 1) = [(1, 5)] \<and>
   obstacles (Flock_init (Vector2D 40 30) 0
       [\<lparr>position = Vector2D 20 15, velocity = Zero, acceleration = Zero\<rparr>,
        \<lparr>position = Vector2D 23 19, velocity = Zero, acceleration = Zero\<rparr>]
       [\<lparr>position = Vector2D 30 15\<rparr>] 12 1 1 1 1) = [(0, 10)] \<and>
   (\<exists>v. separation_vector (Vector2D 40 30)
       [\<lparr>position = Vector2D 20 15, velocity = Zero, acceleration = Zero\<rparr>,
        \<lparr>position = Vector2D 23 19, velocity = Zero, acceleration = Zero\<rparr>]
       (Flock_init (Vector2D 40 30) 0
         [\<lparr>position = Vector2D 20 15, velocity = Zero, acceleration = Zero\<rparr>,
          \<lparr>position = Vector2D 23 19, velocity = Zero, acceleration = Zero\<rparr>]
         [\<lparr>position = Vector2D 30 15\<rparr>] 12 1 1 1 1) = Inr v) \<and>
   (\<exists>v. fear_vector (Vector2D 40 30)
       [\<lparr>position = Vector2D 20 15, velocity = Zero, acceleration = Zero\<rparr>,
        \<lparr>position = Vector2D 23 19, velocity = Zero, acceleration = Zero\<rparr>]
       [\<lparr>position = Vector2D 30 15\<rparr>]
       (Flock_init (Vector2D 40 30) 0
         [\<lparr>position = Vector2D 20 15, velocity = Zero, acceleration = Zero\<rparr>,
          \<lparr>position = Vector2D 23 19, velocity = Zero, acceleration = Zero\<rparr>]
         [\<lparr>position = Vector2D 30 15\<rparr>] 12 1 1 1 1) = Inr v)"
proof -
  have n: "neighbors (Flock_init (Vector2D 40 30) 0
       [\<lparr>position = Vector2D 20 15, velocity = Zero, acceleration = Zero\<rparr>,
        \<lparr>position = Vector2D 23 19, velocity = Zero, acceleration = Zero\<rparr>]
       [\<lparr>position = Vector2D 30 15\<rparr>] 12 1 1 1 1) = [(1, 5)]"
    by (simp add: Flock_init_def get_neighbors_def distance_def boid_displacement_eval
        copysign_def magnitude_3_4 magnitude_axis_x)
  have ob: "obstacles (Flock_init (Vector2D 40 30) 0
       [\<lparr>position = Vector2D 20 15, velocity = Zero, acceleration = Zero\<rparr>,
        \<lparr>position = Vector2D 23 19, velocity = Zero, acceleration = Zero\<rparr>]
       [\<lparr>position = Vector2D 30 15\<rparr>] 12 1 1 1 1) = [(0, 10)]"
    by (simp add: Flock_init_def get_neighbors_def distance_def displacement_def
        copysign_def magnitude_axis_x)
  show ?thesis
    using C9_distances_positive [OF refl, of "Vector2D 40 30" 0
        "[\<lparr>position = Vector2D 20 15, velocity = Zero, acceleration = Zero\<rparr>,
          \<lparr>position = Vector2D 23 19, velocity = Zero, acceleration = Zero\<rparr>]"
        "[\<lparr>position = Vector2D 30 15\<rparr>]" 12 1 1 1 1
        "[\<lparr>position = Vector2D 20 15, velocity = Zero, acceleration = Zero\<rparr>,
          \<lparr>position = Vector2D 23 19, velocity = Zero, acceleration = Zero\<rparr>]"
        "[\<lparr>position = Vector2D 30 15\<rparr>]"]
    by (simp add: n ob)
qed

text \<open>
  C3 (as stated, refuted): with the coefficients a new \<open>BoidSystem\<close> has (10, 10, 10
  and 12), the flock of the example has no neighbor and exactly one obstacle within the
  radius, its fear vector is (-200, 0), and after \<open>apply_impulse\<close> the acceleration of
  the boid is (-50, 0): the setter has limited it to \<open>max_acceleration\<close>, so it is not
  \<open>fear_coefficient \<times> fear_vector\<close> = (-2000, 0).
\<close>

theorem C3_acceleration_clamped_counterexample:
  "neighbors (Flock_init (Vector2D 1000 1000) 0
       [\<lparr>position = Vector2D 10 10, velocity = Vector2D 0 0, acceleration = Vector2D 0 0\<rparr>]
       [\<lparr>position = Vector2D 11 10\<rparr>] 150 10 10 10 12) = [] \<and>
   obstacles (Flock_init (Vector2D 1000 1000) 0
       [\<lparr>position = Vector2D 10 10, velocity = Vector2D 0 0, acceleration = Vector2D 0 0\<rparr>]
       [\<lparr>position = Vector2D 11 10\<rparr>] 150 10 10 10 12) = [(0, 1)] \<and>
   fear_vector (Vector2D 1000 1000)
       [\<lparr>position = Vector2D 10 10, velocity = Vector2D 0 0, acceleration = Vector2D 0 0\<rparr>]
       [\<lparr>position = Vector2D 11 10\<rparr>]
       (Flock_init (Vector2D 1000 1000) 0
         [\<lparr>position = Vector2D 10 10, velocity = Vector2D 0 0, acceleration = Vector2D 0 0\<rparr>]
         [\<lparr>position = Vector2D 11 10\<rparr>] 150 10 10 10 12) = Inr (Vector2D (- 200) 0) \<and>
   apply_impulse (Vector2D 1000 1000)
       [\<lparr>position = Vector2D 10 10, velocity = Vector2D 0 0, acceleration = Vector2D 0 0\<rparr>]
       [\<lparr>position = Vector2D 11 10\<rparr>]
       (Flock_init (Vector2D 1000 1000) 0
         [\<lparr>position = Vector2D 10 10, velocity = Vector2D 0 0, acceleration = Vector2D 0 0\<rparr>]
         [\<lparr>position = Vector2D 11 10\<rparr>] 150 10 10 10 12)
     = Inr [\<lparr>position = Vector2D 10 10, velocity = Vector2D 0 0, acceleration = Vector2D (- 50) 0\<rparr>] \<and>
   Vector2D (- 50) 0 \<noteq> smul 10 (Vector2D (- 200) 0)"
proof -
  have b: "boid (Flock_init (Vector2D 1000 1000) 0
       [\<lparr>position = Vector2D 10 10, velocity = Vector2D 0 0, acceleration = Vector2D 0 0\<rparr>]
       [\<lparr>position = Vector2D 11 10\<rparr>] 150 10 10 10 12) = 0"
    and f: "fear_coefficient (Flock_init (Vector2D 1000 1000) 0
       [\<lparr>position = Vector2D 10 10, velocity = Vector2D 0 0, acceleration = Vector2D 0 0\<rparr>]
       [\<lparr>position = Vector2D 11 10\<rparr>] 150 10 10 10 12) = 10"
    by (simp_all add: Flock_init_def)
  have imp: "impulse (Vector2D 1000 1000)
       [\<lparr>position = Vector2D 10 10, velocity = Vector2D 0 0, acceleration = Vector2D 0 0\<rparr>]
       [\<lparr>position = Vector2D 11 10\<rparr>]
       (Flock_init (Vector2D 1000 1000) 0
         [\<lparr>position = Vector2D 10 10, velocity = Vector2D 0 0, acceleration = Vector2D 0 0\<rparr>]
         [\<lparr>position = Vector2D 11 10\<rparr>] 150 10 10 10 12) = Inr (Vector2D (- 2000) 0)"
    by (simp add: impulse_def example_neighbors example_obstacles example_fear_vector f
        vadd_def Zero_def smul_def)
  have app: "apply_impulse (Vector2D 1000 1000)
       [\<lparr>position = Vector2D 10 10, velocity = Vector2D 0 0, acceleration = Vector2D 0 0\<rparr>]
       [\<lparr>position = Vector2D 11 10\<rparr>]
       (Flock_init (Vector2D 1000 1000) 0
         [\<lparr>position = Vector2D 10 10, velocity = Vector2D 0 0, acceleration = Vector2D 0 0\<rparr>]
         [\<lparr>position = Vector2D 11 10\<rparr>] 150 10 10 10 12)
     = Inr [\<lparr>position = Vector2D 10 10, velocity = Vector2D 0 0, acceleration = Vector2D (- 50) 0\<rparr>]"
    by (simp add: apply_impulse_def imp b set_acceleration_returns magnitude_axis_x
        max_acceleration_def smul_def)
  show ?thesis
    by (simp add: example_neighbors example_obstacles example_fear_vector app smul_def)
qed

text \<open>
  C3 (amended): for a Flock with exactly one obstacle within the radius and no neighbor,
  the fear vector is defined, the impulse that \<open>apply_impulse\<close> assigns is exactly
  \<open>fear_coefficient \<times> fear_vector\<close> (alignment, cohesion and separation contribute
  nothing), and the resulting acceleration is that impulse as the setter stores it: the
  impulse itself when its magnitude is at most \<open>max_acceleration\<close>, otherwise the
  impulse rescaled to \<open>max_acceleration\<close>.
\<close>

theorem C3_fear_only_impulse:
  assumes "fl = Flock_init frm i ps obs r al co fe se"
    and "neighbors fl = []"
    and "obstacles fl = [(k, d)]"
  shows "\<exists>fv. fear_vector frm pop obs' fl = Inr fv \<and>
              impulse frm pop obs' fl = Inr (smul (fear_coefficient fl) fv) \<and>
              apply_impulse frm pop obs' fl =
                Inr (pop[boid fl := (pop ! boid fl)\<lparr>acceleration :=
                       (if magnitude (smul (fear_coefficient fl) fv) > max_acceleration
                        then smul (max_acceleration / magnitude (smul (fear_coefficient fl) fv))
                               (smul (fear_coefficient fl) fv)
                        else smul (fear_coefficient fl) fv)\<rparr>])"
proof -
  have "obstacles fl \<noteq> []" using assms(3) by simp
  then obtain fv where fv: "fear_vector frm pop obs' fl = Inr fv"
    using fear_vector_returns Flock_init_distances_positive [OF assms(1)] by blast
  have imp: "impulse frm pop obs' fl = Inr (smul (fear_coefficient fl) fv)"
    using assms(2,3) fv by (simp add: impulse_def vadd_Zero_left)
  show ?thesis
    using fv imp by (simp add: apply_impulse_def set_acceleration_returns)
qed

theorem C3_fear_only_impulse_witness:
  "neighbors (Flock_init (Vector2D 1000 1000) 0
       [\<lparr>position = Vector2D 10 10, velocity = Vector2D 0 0, acceleration = Vector2D 0 0\<rparr>]
       [\<lparr>position = Vector2D 11 10\<rparr>] 150 10 10 (1 / 10) 12) = [] \<and>
   obstacles (Flock_init (Vector2D 1000 1000) 0
       [\<lparr>position = Vector2D 10 10, velocity = Vector2D 0 0, acceleration = Vector2D 0 0\<rparr>]
       [\<lparr>position = Vector2D 11 10\<rparr>] 150 10 10 (1 / 10) 12) = [(0, 1)] \<and>
   apply_impulse (Vector2D 1000 1000)
       [\<lparr>position = Vector2D 10 10, velocity = Vector2D 0 0, acceleration = Vector2D 0 0\<rparr>]
       [\<lparr>position = Vector2D 11 10\<rparr>]
       (Flock_init (Vector2D 1000 1000) 0
         [\<lparr>position = Vector2D 10 10, velocity = Vector2D 0 0, acceleration = Vector2D 0 0\<rparr>]
         [\<lparr>position = Vector2D 11 10\<rparr>] 150 10 10 (1 / 10) 12)
     = Inr [\<lparr>position = Vector2D 10 10, velocity = Vector2D 0 0, acceleration = Vector2D (- 20) 0\<rparr>]"
proof -
  have b: "boid (Flock_init (Vector2D 1000 1000) 0
       [\<lparr>position = Vector2D 10 10, velocity = Vector2D 0 0, acceleration = Vector2D 0 0\<rparr>]
       [\<lparr>position = Vector2D 11 10\<rparr>] 150 10 10 (1 / 10) 12) = 0"
    and f: "fear_coefficient (Flock_init (Vector2D 1000 1000) 0
       [\<lparr>position = Vector2D 10 10, velocity = Vector2D 0 0, acceleration = Vector2D 0 0\<rparr>]
       [\<lparr>position = Vector2D 11 10\<rparr>] 150 10 10 (1 / 10) 12) = 1 / 10"
    by (simp_all add: Flock_init_def)
  show ?thesis
    using C3_fear_only_impulse [OF refl example_neighbors [of 10 10 "1 / 10" 12]
        example_obstacles [of 10 10 "1 / 10" 12],
        where pop = "[\<lparr>position = Vector2D 10 10, velocity = Vector2D 0 0, acceleration = Vector2D 0 0\<rparr>]"
          and obs' = "[\<lparr>position = Vector2D 11 10\<rparr>]"]
    by (simp add: example_neighbors example_obstacles example_fear_vector b f smul_def
        magnitude_axis_x max_acceleration_def)
qed

section \<open>Claims about the Boid\<close>




section \<open>Claims about the simulation system\<close>

text \<open>
  C1 (as the code behaves): on the example system with timestep 1, \<open>update\<close> and the
  two-phase reference disagree. The flocks (neighbor keys and distances) are built from
  the snapshot, but each flock's steering vectors are computed when its impulse is
  applied, after the boids before it have moved. Boid 0 gets the acceleration (-50, 0)
  and moves to (960, 10) in both. Boid 1 then sees boid 0 there, moving left, and gets
  (-50, 0) in \<open>update\<close>; from the snapshot, where boid 0 is at rest at (10, 10), the
  reference gives it (50, 0). In the reference every impulse is computed from the
  snapshot, since an impulse reads only positions and velocities
  (\<open>impulse_reads_positions_and_velocities\<close>) and applying one changes neither
  (\<open>apply_impulse_keeps_positions_and_velocities\<close>).
\<close>

theorem C1_update_not_two_phase:
  "map_sum id population (update (Vector2D 1000 1000) two_boids_at_rest 1)
     = Inr [\<lparr>position = Vector2D 960 10, velocity = Vector2D (- 50) 0, acceleration = Vector2D (- 50) 0\<rparr>,
            \<lparr>position = Vector2D 965 10, velocity = Vector2D (- 50) 0, acceleration = Vector2D (- 50) 0\<rparr>] \<and>
   map_sum id population (update_two_phase (Vector2D 1000 1000) two_boids_at_rest 1)
     = Inr [\<lparr>position = Vector2D 960 10, velocity = Vector2D (- 50) 0, acceleration = Vector2D (- 50) 0\<rparr>,
            \<lparr>position = Vector2D 65 10, velocity = Vector2D 50 0, acceleration = Vector2D 50 0\<rparr>] \<and>
   update (Vector2D 1000 1000) two_boids_at_rest 1
     \<noteq> update_two_phase (Vector2D 1000 1000) two_boids_at_rest 1"
proof -
  have p: "population two_boids_at_rest =
        [\<lparr>position = Vector2D 10 10, velocity = Vector2D 0 0, acceleration = Vector2D 0 0\<rparr>,
         \<lparr>position = Vector2D 15 10, velocity = Vector2D 0 0, acceleration = Vector2D 0 0\<rparr>]"
    and o: "sys_obstacles two_boids_at_rest = []"
    by (simp_all add: two_boids_at_rest_def)
  have b: "boid (flock_of 0 (Suc 0)) = 0" "boid (flock_of (Suc 0) 0) = Suc 0"
    by (simp_all add: flock_of_def)
  have code: "update_loop (Vector2D 1000 1000) [] 1 [flock_of 0 (Suc 0), flock_of (Suc 0) 0]
        [\<lparr>position = Vector2D 10 10, velocity = Vector2D 0 0, acceleration = Vector2D 0 0\<rparr>,
         \<lparr>position = Vector2D 15 10, velocity = Vector2D 0 0, acceleration = Vector2D 0 0\<rparr>]
     = Inr [\<lparr>position = Vector2D 960 10, velocity = Vector2D (- 50) 0, acceleration = Vector2D (- 50) 0\<rparr>,
            \<lparr>position = Vector2D 965 10, velocity = Vector2D (- 50) 0, acceleration = Vector2D (- 50) 0\<rparr>]"
    by (simp add: b first_impulse first_motion second_impulse_live second_motion_live)
  have ref1: "impulse_phase (Vector2D 1000 1000) [] [flock_of 0 (Suc 0), flock_of (Suc 0) 0]
        [\<lparr>position = Vector2D 10 10, velocity = Vector2D 0 0, acceleration = Vector2D 0 0\<rparr>,
         \<lparr>position = Vector2D 15 10, velocity = Vector2D 0 0, acceleration = Vector2D 0 0\<rparr>]
     = Inr [\<lparr>position = Vector2D 10 10, velocity = Vector2D 0 0, acceleration = Vector2D (- 50) 0\<rparr>,
            \<lparr>position = Vector2D 15 10, velocity = Vector2D 0 0, acceleration = Vector2D 50 0\<rparr>]"
    by (simp add: first_impulse second_impulse_snapshot)
  have ref2: "motion_phase (Vector2D 1000 1000) 1 [flock_of 0 (Suc 0), flock_of (Suc 0) 0]
        [\<lparr>position = Vector2D 10 10, velocity = Vector2D 0 0, acceleration = Vector2D (- 50) 0\<rparr>,
         \<lparr>position = Vector2D 15 10, velocity = Vector2D 0 0, acceleration = Vector2D 50 0\<rparr>]
     = Inr [\<lparr>position = Vector2D 960 10, velocity = Vector2D (- 50) 0, acceleration = Vector2D (- 50) 0\<rparr>,
            \<lparr>position = Vector2D 65 10, velocity = Vector2D 50 0, acceleration = Vector2D 50 0\<rparr>]"
    by (simp add: b first_motion second_motion_snapshot)
  have u: "map_sum id population (update (Vector2D 1000 1000) two_boids_at_rest 1)
     = Inr [\<lparr>position = Vector2D 960 10, velocity = Vector2D (- 50) 0, acceleration = Vector2D (- 50) 0\<rparr>,
            \<lparr>position = Vector2D 965 10, velocity = Vector2D (- 50) 0, acceleration = Vector2D (- 50) 0\<rparr>]"
    unfolding update_def Let_def two_boids_flocks p o code by simp
  have r: "map_sum id population (update_two_phase (Vector2D 1000 1000) two_boids_at_rest 1)
     = Inr [\<lparr>position = Vector2D 960 10, velocity = Vector2D (- 50) 0, acceleration = Vector2D (- 50) 0\<rparr>,
            \<lparr>position = Vector2D 65 10, velocity = Vector2D 50 0, acceleration = Vector2D 50 0\<rparr>]"
    unfolding update_two_phase_def Let_def two_boids_flocks p o ref1 sum.case ref2 by simp
  have "update (Vector2D 1000 1000) two_boids_at_rest 1
     \<noteq> update_two_phase (Vector2D 1000 1000) two_boids_at_rest 1"
  proof
    assume "update (Vector2D 1000 1000) two_boids_at_rest 1
              = update_two_phase (Vector2D 1000 1000) two_boids_at_rest 1"
    with u r show False by simp
  qed
  with u r show ?thesis by simp
qed

end
